theory Spec2Isabelle
  imports Main "HOL-Library.Word"
begin

section \<open>Python values\<close>

text \<open>
  The request payload, the protected header and the response are Python dictionaries
  obtained from JSON. A dictionary is an association list in insertion order; the
  keys of one dictionary are distinct. Numbers are Python integers.
\<close>

datatype json =
    JNull
  | JBool bool
  | JNum int
  | JStr string
  | JArr "json list"
  | JObj "(string \<times> json) list"

type_synonym dict = "(string \<times> json) list"

datatype error = KeyError | TypeError | AttributeError

text \<open>Sequencing of computations that may raise: the first exception wins.\<close>

definition ebind :: "error + 'a \<Rightarrow> ('a \<Rightarrow> error + 'b) \<Rightarrow> error + 'b" where
  "ebind m f = (case m of Inl e \<Rightarrow> Inl e | Inr x \<Rightarrow> f x)"

text \<open>\<^verbatim>\<open>k in d\<close> and \<^verbatim>\<open>d[k]\<close> on a dictionary.\<close>

definition has_key :: "string \<Rightarrow> dict \<Rightarrow> bool" where
  "has_key k d = (case map_of d k of None \<Rightarrow> False | Some _ \<Rightarrow> True)"

definition item :: "dict \<Rightarrow> string \<Rightarrow> error + json" where
  "item d k = (case map_of d k of None \<Rightarrow> Inl KeyError | Some v \<Rightarrow> Inr v)"

text \<open>\<^verbatim>\<open>d[k] = v\<close>: an existing key keeps its place, a new one is appended.\<close>

fun setitem :: "dict \<Rightarrow> string \<Rightarrow> json \<Rightarrow> dict" where
  "setitem [] k v = [(k, v)]"
| "setitem ((k', v') # d) k v =
     (if k' = k then (k, v) # d else (k', v') # setitem d k v)"

text \<open>Truth value of an object in a condition.\<close>

fun truthy :: "json \<Rightarrow> bool" where
  "truthy JNull = False"
| "truthy (JBool b) = b"
| "truthy (JNum n) = (n \<noteq> 0)"
| "truthy (JStr s) = (s \<noteq> [])"
| "truthy (JArr xs) = (xs \<noteq> [])"
| "truthy (JObj kvs) = (kvs \<noteq> [])"

text \<open>\<^verbatim>\<open>k in s\<close> for two strings: \<open>k\<close> occurs in \<open>s\<close> as a contiguous run.\<close>

fun occurs_in :: "string \<Rightarrow> string \<Rightarrow> bool" where
  "occurs_in k [] = (k = [])"
| "occurs_in k (c # cs) = (take (length k) (c # cs) = k \<or> occurs_in k cs)"

text \<open>
  \<^verbatim>\<open>k in x\<close> for a string \<open>k\<close> and any JSON value: key test on a dictionary,
  element test on a list, substring test on a string, \<open>TypeError\<close> otherwise.
\<close>

fun py_in :: "string \<Rightarrow> json \<Rightarrow> error + bool" where
  "py_in k (JObj d) = Inr (has_key k d)"
| "py_in k (JArr xs) = Inr (JStr k \<in> set xs)"
| "py_in k (JStr s) = Inr (occurs_in k s)"
| "py_in k _ = Inl TypeError"

text \<open>\<^verbatim>\<open>x[k]\<close> with a string key: only a dictionary can be indexed by a string.\<close>

fun py_getitem :: "json \<Rightarrow> string \<Rightarrow> error + json" where
  "py_getitem (JObj d) k = item d k"
| "py_getitem _ k = Inl TypeError"

text \<open>
  \<^verbatim>\<open>x.lower()\<close>: only strings have the method. Characters are bytes; the letters
  \<open>A\<close> to \<open>Z\<close> are mapped to \<open>a\<close> to \<open>z\<close>.
\<close>

definition lower_char :: "char \<Rightarrow> char" where
  "lower_char c =
     (case map_of (zip ''ABCDEFGHIJKLMNOPQRSTUVWXYZ'' ''abcdefghijklmnopqrstuvwxyz'') c of
        Some l \<Rightarrow> l
      | None \<Rightarrow> c)"

fun py_lower :: "json \<Rightarrow> error + string" where
  "py_lower (JStr s) = Inr (map lower_char s)"
| "py_lower _ = Inl AttributeError"

text \<open>\<^verbatim>\<open>sep.join(x)\<close>: \<open>x\<close> is iterated, and every element must be a string.\<close>

fun join :: "string \<Rightarrow> string list \<Rightarrow> string" where
  "join sep [] = []"
| "join sep [x] = x"
| "join sep (x # y # ys) = x @ sep @ join sep (y # ys)"

fun str_items :: "json list \<Rightarrow> string list option" where
  "str_items [] = Some []"
| "str_items (JStr s # xs) = map_option ((#) s) (str_items xs)"
| "str_items (_ # xs) = None"

fun py_join :: "string \<Rightarrow> json \<Rightarrow> error + string" where
  "py_join sep (JArr xs) =
     (case str_items xs of None \<Rightarrow> Inl TypeError | Some ss \<Rightarrow> Inr (join sep ss))"
| "py_join sep (JStr s) = Inr (join sep (map (\<lambda>c. [c]) s))"
| "py_join sep (JObj d) = Inr (join sep (map fst d))"
| "py_join sep _ = Inl TypeError"

text \<open>\<open>None\<close> or a string, as a JSON value.\<close>

definition opt_str :: "string option \<Rightarrow> json" where
  "opt_str x = (case x of None \<Rightarrow> JNull | Some s \<Rightarrow> JStr s)"

section \<open>The collaborators of the Account class\<close>

text \<open>
  \<^verbatim>\<open>acme/account.py\<close> imports \<^verbatim>\<open>generate_random_string\<close> and \<^verbatim>\<open>validate_email\<close>
  from \<^verbatim>\<open>acme.helper\<close>, \<^verbatim>\<open>DBstore\<close> from \<^verbatim>\<open>acme.db_handler\<close> and \<^verbatim>\<open>Message\<close> from
  \<^verbatim>\<open>acme.message\<close>. None of the three modules is among the sources, so an \<open>Account\<close>
  object carries them as fields: the functions below are parameters of every
  definition of the class.

  \<^item> \<open>'c\<close> is the raw request content handed to \<^verbatim>\<open>Message.check\<close>;
  \<^item> \<open>'s\<close> is the state of the account table behind \<^verbatim>\<open>DBstore\<close>; \<^verbatim>\<open>account_add\<close> and
    \<^verbatim>\<open>account_delete\<close> return the new state, \<^verbatim>\<open>account_lookup\<close> and \<^verbatim>\<open>Message.check\<close>
    read it;
  \<^item> \<open>'r\<close> is the randomness \<^verbatim>\<open>generate_random_string\<close> draws from.

  \<^verbatim>\<open>Message.check\<close> returns the tuple (code, message, detail, protected, payload,
  account name); its second argument is optional. The class reads the keys of the
  payload in lower case (\<^verbatim>\<open>onlyreturnexisting\<close>, \<^verbatim>\<open>termsofserviceagreed\<close>): the payload is
  the one \<^verbatim>\<open>Message.check\<close> returns, with the keys as it delivers them. The nonce that
  \<^verbatim>\<open>Message.check\<close> consumes and the one \<^verbatim>\<open>Message.prepare_response\<close> issues are not part
  of the state \<open>'s\<close>.

  A row of the account table is what \<^verbatim>\<open>account_lookup\<close> returns; the class reads its
  \<^verbatim>\<open>name\<close> only. The other fields are those the specification lists for an account.
\<close>

datatype account_status = Valid | Deactivated | Revoked

record account =
  name :: string
  alg :: json
  jwk :: json
  contact :: json
  status :: account_status

type_synonym triple = "int \<times> string option \<times> string option"

record ('c, 's, 'r) collaborators =
  server_name :: string
  message_check ::
    "'c \<Rightarrow> bool option \<Rightarrow> 's \<Rightarrow> int \<times> string option \<times> string option \<times> dict \<times> dict \<times> string option"
  message_prepare_response :: "dict \<Rightarrow> dict \<Rightarrow> dict"
  helper_generate_random_string :: "'r \<Rightarrow> nat \<Rightarrow> string"
  helper_validate_email :: "json \<Rightarrow> bool"
  dbstore_account_add :: "dict \<Rightarrow> 's \<Rightarrow> (string \<times> bool) \<times> 's"
  dbstore_account_lookup :: "string \<Rightarrow> json \<Rightarrow> 's \<Rightarrow> account option"
  dbstore_account_delete :: "string option \<Rightarrow> 's \<Rightarrow> bool \<times> 's"

section \<open>The Account class (acme/account.py)\<close>

definition acct_path :: string where
  "acct_path = ''/acme/acct/''"

definition urn_malformed :: string where
  "urn_malformed = ''urn:ietf:params:acme:error:malformed''"

definition urn_invalidContact :: string where
  "urn_invalidContact = ''urn:ietf:params:acme:error:invalidContact''"

definition urn_accountDoesNotExist :: string where
  "urn_accountDoesNotExist = ''urn:ietf:params:acme:error:accountDoesNotExist''"

definition urn_userActionRequired :: string where
  "urn_userActionRequired = ''urn:ietf:params:acme:error:userActionRequired''"

definition urn_unauthorized :: string where
  "urn_unauthorized = ''urn:ietf:params:acme:error:unauthorized''"

text \<open>
  \<^verbatim>\<open>Account.add\<close>. The name is drawn before the request is looked at. The condition
  \<^verbatim>\<open>'alg' in content and 'jwk' in content and contact\<close> is the first case below, which
  also reads the two values; every other case is the \<^verbatim>\<open>else\<close> branch. The two
  \<^verbatim>\<open>json.dumps\<close> calls that serialise \<^verbatim>\<open>jwk\<close> and \<^verbatim>\<open>contact\<close> for the table are not
  modelled: \<^verbatim>\<open>data_dic\<close> holds the values themselves.
\<close>

definition add ::
  "('c, 's, 'r) collaborators \<Rightarrow> 'r \<Rightarrow> dict \<Rightarrow> json \<Rightarrow> 's \<Rightarrow> triple \<times> 's" where
  "add E rnd content contact' s =
     (let account_name = helper_generate_random_string E rnd 12 in
      case (map_of content ''alg'', map_of content ''jwk'', truthy contact') of
        (Some alg', Some jwk', True) \<Rightarrow>
          (let data_dic = [(''name'', JStr account_name), (''alg'', alg'),
                           (''jwk'', jwk'), (''contact'', contact')];
               ((db_name, new'), s') = dbstore_account_add E data_dic s
           in if new' then ((201, Some account_name, None), s')
              else ((200, Some db_name, None), s'))
      | _ \<Rightarrow> ((400, Some urn_malformed, Some ''incomplete protectedpayload''), s))"

text \<open>\<^verbatim>\<open>Account.contact_check\<close>.\<close>

definition contact_check :: "('c, 's, 'r) collaborators \<Rightarrow> dict \<Rightarrow> error + triple" where
  "contact_check E content =
     (case map_of content ''contact'' of
        Some c \<Rightarrow>
          (if \<not> helper_validate_email E c
           then ebind (py_join '', '' c) (\<lambda>d. Inr (400, Some urn_invalidContact, Some d))
           else Inr (200, None, None))
      | None \<Rightarrow> Inr (400, Some urn_invalidContact, Some ''no contacts specified''))"

text \<open>\<^verbatim>\<open>Account.delete\<close>.\<close>

definition delete :: "('c, 's, 'r) collaborators \<Rightarrow> string option \<Rightarrow> 's \<Rightarrow> triple \<times> 's" where
  "delete E aname s =
     (let (result, s') = dbstore_account_delete E aname s
      in if result then ((200, None, None), s')
         else ((400, Some urn_accountDoesNotExist, Some ''deletion failed''), s'))"

text \<open>\<^verbatim>\<open>Account.tos_check\<close>.\<close>

definition tos_check :: "dict \<Rightarrow> triple" where
  "tos_check content =
     (case map_of content ''termsofserviceagreed'' of
        Some v \<Rightarrow>
          (if truthy v then (200, None, None)
           else (403, Some urn_userActionRequired, Some ''tosfalse''))
      | None \<Rightarrow> (403, Some urn_userActionRequired, Some ''tosfalse''))"

text \<open>\<^verbatim>\<open>Account.onlyreturnexisting\<close>.\<close>

definition onlyreturnexisting ::
  "('c, 's, 'r) collaborators \<Rightarrow> dict \<Rightarrow> dict \<Rightarrow> 's \<Rightarrow> error + triple" where
  "onlyreturnexisting E protected payload s =
     ebind (item payload ''onlyreturnexisting'') (\<lambda>flag.
       if truthy flag then
         (if has_key ''jwk'' protected then
            ebind (item protected ''jwk'') (\<lambda>k.
            ebind (py_in ''n'' k) (\<lambda>has_n.
              if has_n then
                ebind (py_getitem k ''n'') (\<lambda>n.
                  case dbstore_account_lookup E ''modulus'' n s of
                    Some result \<Rightarrow> Inr (200, Some (name result), None)
                  | None \<Rightarrow> Inr (400, Some urn_accountDoesNotExist, None))
              else Inr (400, Some urn_malformed, Some ''n value missing'')))
          else Inr (400, Some urn_malformed, Some ''jwk structure missing''))
       else Inr (400, Some urn_userActionRequired, Some ''onlyReturnExisting must be true''))"

text \<open>
  The dictionary \<^verbatim>\<open>status_dic\<close> that \<^verbatim>\<open>new\<close> and \<^verbatim>\<open>parse\<close> hand to
  \<^verbatim>\<open>Message.prepare_response\<close>.
\<close>

definition status_dic :: "triple \<Rightarrow> dict" where
  "status_dic t =
     (case t of (code, message, detail) \<Rightarrow>
        [(''code'', JNum code), (''message'', opt_str message), (''detail'', opt_str detail)])"

text \<open>
  \<^verbatim>\<open>Account.new\<close>, in its three steps: the checks and the registration (lines 110 to
  124), the response for the outcome (lines 126 to 138), and the whole method.
\<close>

definition new_steps ::
  "('c, 's, 'r) collaborators \<Rightarrow> 'r \<Rightarrow> triple \<Rightarrow> dict \<Rightarrow> dict \<Rightarrow> 's \<Rightarrow> error + triple \<times> 's" where
  "new_steps E rnd t protected payload s =
     (if fst t = 200 then
        (if has_key ''onlyreturnexisting'' payload then
           ebind (onlyreturnexisting E protected payload s) (\<lambda>t'. Inr (t', s))
         else
           ebind (let t1 = tos_check payload
                  in if fst t1 = 200 then contact_check E payload else Inr t1) (\<lambda>t2.
             if fst t2 = 200 then
               ebind (item payload ''contact'') (\<lambda>c. Inr (add E rnd protected c s))
             else Inr (t2, s)))
      else Inr (t, s))"

definition new_response ::
  "('c, 's, 'r) collaborators \<Rightarrow> triple \<Rightarrow> dict \<Rightarrow> error + dict \<times> triple" where
  "new_response E t payload =
     (case t of (code, message, detail) \<Rightarrow>
        (let location =
               server_name E @ acct_path @ (case message of None \<Rightarrow> ''None'' | Some m \<Rightarrow> m)
         in if code = 200 \<or> code = 201 then
              ebind (if code = 201 then
                       ebind (item payload ''contact'') (\<lambda>c.
                         Inr (setitem [] ''data''
                                (JObj [(''status'', JStr ''valid''), (''contact'', c),
                                       (''orders'', JStr (location @ ''/orders''))])))
                     else Inr (setitem [] ''data'' (JObj []))) (\<lambda>response_dic.
                Inr (setitem response_dic ''header'' (JObj [(''Location'', JStr location)]),
                     (code, message, detail)))
            else
              Inr ([], (code, message,
                        if detail = Some ''tosfalse''
                        then Some ''Terms of service must be accepted'' else detail))))"

definition new ::
  "('c, 's, 'r) collaborators \<Rightarrow> 'r \<Rightarrow> 'c \<Rightarrow> 's \<Rightarrow> error + dict \<times> 's" where
  "new E rnd content s =
     (case message_check E content (Some True) s of
        (code, message, detail, protected, payload, _) \<Rightarrow>
          ebind (new_steps E rnd (code, message, detail) protected payload s) (\<lambda>(t, s').
          ebind (new_response E t payload) (\<lambda>(response_dic, t').
            Inr (message_prepare_response E response_dic (status_dic t'), s'))))"

text \<open>
  \<^verbatim>\<open>Account.parse\<close>. The check is called without the second argument, which is
  rendered as \<open>None\<close>.
\<close>

definition parse ::
  "('c, 's, 'r) collaborators \<Rightarrow> 'c \<Rightarrow> 's \<Rightarrow> error + dict \<times> 's" where
  "parse E content s =
     (case message_check E content None s of
        (code, message, detail, _, payload, account_name) \<Rightarrow>
          ebind
            (if code = 200 then
               (if has_key ''status'' payload then
                  ebind (item payload ''status'') (\<lambda>st.
                  ebind (py_lower st) (\<lambda>l.
                    if l = ''deactivated'' then
                      (case delete E account_name s of
                         (t, s') \<Rightarrow>
                           Inr (if fst t = 200 then setitem [] ''data'' (JObj payload) else [],
                                t, s'))
                    else
                      Inr ([], (400, Some urn_malformed,
                                Some ''status attribute without sense''), s)))
                else
                  Inr ([], (400, Some urn_malformed,
                            Some ''dont know what to do with this request''), s))
             else Inr ([], (code, message, detail), s))
            (\<lambda>(response_dic, t, s').
               Inr (message_prepare_response E response_dic (status_dic t), s')))"

section \<open>A reference instance of the collaborators\<close>

text \<open>
  The definitions of this section stand for the modules that are not among the sources.
  They follow the specification, and serve to run the class on concrete requests.
\<close>

text \<open>
  Modelled from the spec: the request content that \<^verbatim>\<open>Message.check\<close> (absent:
  \<^verbatim>\<open>acme/message.py\<close>) receives. Section 4.2 decodes a flattened JWS into its protected
  header and its payload and runs a verification pipeline that fails on the first
  mismatch. Steps 1 to 4, 6 and 7 (field presence, algorithm allow-list, URL binding,
  nonce consumption, signature, payload decoding) are summarised by their outcome
  \<open>rejected\<close>: the failure they end with, if any.
\<close>

record envelope =
  protected :: dict
  payload :: dict
  rejected :: "triple option"

text \<open>
  Modelled from the spec: \<^verbatim>\<open>Message.check\<close> (absent: \<^verbatim>\<open>acme/message.py\<close>). Section 4.2,
  step 5: with a \<^verbatim>\<open>kid\<close>, which is the account URL, the account record is resolved; the
  check fails with \<^verbatim>\<open>accountDoesNotExist\<close> if it is unknown and with \<^verbatim>\<open>unauthorized\<close>
  if the account is deactivated (HTTP 401 in scenario 6 of section 8). In
  skip-signature mode no account lookup is made and the account name is null. The
  output is the tuple of the section's output contract.
\<close>

definition check ::
  "string \<Rightarrow> envelope \<Rightarrow> bool option \<Rightarrow> account list \<Rightarrow>
     int \<times> string option \<times> string option \<times> dict \<times> dict \<times> string option" where
  "check srv env skip s =
     (case rejected env of
        Some (code, message, detail) \<Rightarrow> (code, message, detail, [], [], None)
      | None \<Rightarrow>
          (if skip = Some True then (200, None, None, protected env, payload env, None)
           else
             (case map_of (protected env) ''kid'' of
                Some kid \<Rightarrow>
                  (case find (\<lambda>a. JStr (srv @ acct_path @ name a) = kid) s of
                     None \<Rightarrow> (400, Some urn_accountDoesNotExist, None, [], [], None)
                   | Some a \<Rightarrow>
                       (if status a = Deactivated
                        then (401, Some urn_unauthorized, None, [], [], None)
                        else (200, None, None, protected env, payload env, Some (name a))))
              | None \<Rightarrow> (200, None, None, protected env, payload env, None))))"

text \<open>
  Modelled from the spec: \<^verbatim>\<open>Message.prepare_response\<close> (absent: \<^verbatim>\<open>acme/message.py\<close>).
  Sections 6 and 7: a response carries the HTTP code of the status triple, a fresh
  \<^verbatim>\<open>Replay-Nonce\<close> and the \<^verbatim>\<open>Link\<close> to the directory; an error response is a problem
  document whose \<^verbatim>\<open>type\<close> is the error URN, with a \<^verbatim>\<open>detail\<close> string. The fresh nonce
  is an argument.
\<close>

definition prepare_response :: "string \<Rightarrow> string \<Rightarrow> dict \<Rightarrow> dict \<Rightarrow> dict" where
  "prepare_response srv nonce response_dic sd =
     (let code = (case map_of sd ''code'' of Some (JNum c) \<Rightarrow> c | _ \<Rightarrow> 500);
          old = (case map_of response_dic ''header'' of Some (JObj h) \<Rightarrow> h | _ \<Rightarrow> []);
          header = setitem (setitem old ''Replay-Nonce'' (JStr nonce)) ''Link''
                     (JStr (''<'' @ srv @ ''/directory>; rel='' @ [CHR 0x22] @ ''index'' @ [CHR 0x22]));
          r = setitem (setitem response_dic ''code'' (JNum code)) ''header'' (JObj header)
      in if 400 \<le> code
         then setitem r ''data''
                (JObj [(''type'', case map_of sd ''message'' of Some m \<Rightarrow> m | None \<Rightarrow> JNull),
                       (''detail'', case map_of sd ''detail'' of Some d \<Rightarrow> d | None \<Rightarrow> JNull)])
         else r)"

text \<open>
  Modelled from the spec: \<^verbatim>\<open>generate_random_string\<close> (absent: \<^verbatim>\<open>acme/helper.py\<close>).
  Section 3, invariant 5, and section 4.3: a name is URL-safe and carries at least 96
  bits of entropy. \<^verbatim>\<open>Account.add\<close> passes the number 12, read here as the number of
  random octets to draw; each octet is written as two hexadecimal digits.
\<close>

definition hex_digit :: "nat \<Rightarrow> char" where
  "hex_digit n = ''0123456789abcdef'' ! n"

definition hex_octet :: "8 word \<Rightarrow> string" where
  "hex_octet w = [hex_digit (unat w div 16), hex_digit (unat w mod 16)]"

definition generate_random_string :: "8 word list \<Rightarrow> nat \<Rightarrow> string" where
  "generate_random_string rnd n = concat (map hex_octet (take n rnd))"

text \<open>The unreserved characters of a URL: letters, digits, and the four marks.\<close>

definition url_safe :: "char \<Rightarrow> bool" where
  "url_safe c =
     (let n = (of_char c :: nat)
      in (48 \<le> n \<and> n \<le> 57) \<or> (65 \<le> n \<and> n \<le> 90) \<or> (97 \<le> n \<and> n \<le> 122)
         \<or> c = CHR ''-'' \<or> c = CHR ''.'' \<or> c = CHR ''_'' \<or> c = CHR ''~'')"

text \<open>
  Modelled from the spec: \<^verbatim>\<open>validate_email\<close> (absent: \<^verbatim>\<open>acme/helper.py\<close>). Section 4.3
  requires at least one contact URI of the \<^verbatim>\<open>mailto:\<close> shape; of the shape, the model
  keeps the scheme and the presence of \<^verbatim>\<open>@\<close> in the address.
\<close>

definition mailto_shape :: "json \<Rightarrow> bool" where
  "mailto_shape c =
     (case c of JStr u \<Rightarrow> take 7 u = ''mailto:'' \<and> CHR ''@'' \<in> set (drop 7 u) | _ \<Rightarrow> False)"

definition validate_email :: "json \<Rightarrow> bool" where
  "validate_email c = (case c of JArr us \<Rightarrow> us \<noteq> [] \<and> list_all mailto_shape us | _ \<Rightarrow> False)"

text \<open>
  Modelled from the spec: \<^verbatim>\<open>DBstore.account_add\<close> (absent: \<^verbatim>\<open>acme/db_handler.py\<close>).
  Sections 3 and 5: account creation is keyed on the account key, which is unique across
  the accounts that are not deactivated; registering a known key again yields the
  existing name. Equal keys stand for equal thumbprints. A new account is valid.
\<close>

definition field :: "dict \<Rightarrow> string \<Rightarrow> json" where
  "field d k = (case map_of d k of None \<Rightarrow> JNull | Some v \<Rightarrow> v)"

definition account_add :: "dict \<Rightarrow> account list \<Rightarrow> (string \<times> bool) \<times> account list" where
  "account_add data_dic s =
     (case find (\<lambda>a. jwk a = field data_dic ''jwk'' \<and> status a \<noteq> Deactivated) s of
        Some a \<Rightarrow> ((name a, False), s)
      | None \<Rightarrow>
          (let n = (case field data_dic ''name'' of JStr x \<Rightarrow> x | _ \<Rightarrow> [])
           in ((n, True),
               s @ [\<lparr>name = n, alg = field data_dic ''alg'', jwk = field data_dic ''jwk'',
                      contact = field data_dic ''contact'', status = Valid\<rparr>])))"

text \<open>
  Modelled from the spec: \<^verbatim>\<open>DBstore.account_lookup\<close> (absent: \<^verbatim>\<open>acme/db_handler.py\<close>).
  Section 6: the store looks an account up by its key. The column \<^verbatim>\<open>modulus\<close>, the one
  the class asks for, holds the member \<^verbatim>\<open>n\<close> of the account key.
\<close>

definition account_lookup :: "string \<Rightarrow> json \<Rightarrow> account list \<Rightarrow> account option" where
  "account_lookup column v s =
     (if column = ''modulus'' then find (\<lambda>a. py_getitem (jwk a) ''n'' = Inr v) s else None)"

text \<open>
  Modelled from the spec: \<^verbatim>\<open>DBstore.account_delete\<close> (absent: \<^verbatim>\<open>acme/db_handler.py\<close>).
  Sections 3 and 4.3: an account is never destroyed; deactivation is a transition of its
  status. The result tells whether a record of that name was found.
\<close>

definition account_delete :: "string option \<Rightarrow> account list \<Rightarrow> bool \<times> account list" where
  "account_delete aname s =
     (case aname of
        None \<Rightarrow> (False, s)
      | Some n \<Rightarrow>
          (list_ex (\<lambda>a. name a = n) s,
           map (\<lambda>a. if name a = n then a\<lparr>status := Deactivated\<rparr> else a) s))"

definition reference ::
  "string \<Rightarrow> string \<Rightarrow> (envelope, account list, 8 word list) collaborators" where
  "reference srv nonce =
     \<lparr>server_name = srv,
      message_check = check srv,
      message_prepare_response = prepare_response srv nonce,
      helper_generate_random_string = generate_random_string,
      helper_validate_email = validate_email,
      dbstore_account_add = account_add,
      dbstore_account_lookup = account_lookup,
      dbstore_account_delete = account_delete\<rparr>"

section \<open>The WSGI dispatcher (examples, acme2certifier wsgi)\<close>

text \<open>
  The part of the WSGI environment the dispatcher reads. \<^verbatim>\<open>wsgi.input\<close> is the request
  body as sent; a key that may be missing is an option. \<^verbatim>\<open>REMOTE_ADDR\<close> is read for
  logging only and is left out, as the calls of the logger are.
\<close>

record environ =
  REQUEST_METHOD :: string
  PATH_INFO :: "string option"
  CONTENT_LENGTH :: "string option"
  wsgi_input :: string

text \<open>
  What a handler gives the server: the status line and the headers passed to
  \<^verbatim>\<open>start_response\<close>, and the body. The body is the value that \<^verbatim>\<open>json.dumps\<close>
  serialises; \<open>None\<close> is the empty list of chunks.
\<close>

type_synonym response = "string \<times> (string \<times> json) list \<times> json option"

definition HTTP_CODE_DIC :: "(int \<times> string) list" where
  "HTTP_CODE_DIC =
     [(200, ''Created''),
      (201, ''OK''),
      (400, ''Bad Request''),
      (401, ''Unauthorized''),
      (403, ''Forbidden''),
      (404, ''Not Found''),
      (405, ''Method Not Allowed''),
      (500, ''serverInternal '')]"

text \<open>The decimal numeral of an integer, as \<^verbatim>\<open>format\<close> writes it.\<close>

fun digits :: "nat \<Rightarrow> string" where
  "digits n =
     (if n < 10 then [''0123456789'' ! n]
      else digits (n div 10) @ [''0123456789'' ! (n mod 10)])"

declare digits.simps [simp del]

definition str_int :: "int \<Rightarrow> string" where
  "str_int i = (if i < 0 then CHR ''-'' # digits (nat (- i)) else digits (nat i))"

text \<open>
  \<^verbatim>\<open>int(x)\<close> on a string: blanks around an optional sign and decimal digits; \<open>None\<close>
  stands for \<^verbatim>\<open>ValueError\<close>. The digit separator \<^verbatim>\<open>_\<close> of later Python versions is
  not part of the model.
\<close>

definition is_space :: "char \<Rightarrow> bool" where
  "is_space c = (c \<in> set [CHR '' '', CHR 0x09, CHR 0x0A, CHR 0x0B, CHR 0x0C, CHR 0x0D])"

definition digit_val :: "char \<Rightarrow> int option" where
  "digit_val c = map_of (zip ''0123456789'' [0, 1, 2, 3, 4, 5, 6, 7, 8, 9]) c"

fun digits_val :: "int \<Rightarrow> string \<Rightarrow> int option" where
  "digits_val acc [] = Some acc"
| "digits_val acc (c # cs) =
     (case digit_val c of None \<Rightarrow> None | Some v \<Rightarrow> digits_val (10 * acc + v) cs)"

definition py_int :: "string \<Rightarrow> int option" where
  "py_int x =
     (let t = rev (dropWhile is_space (rev (dropWhile is_space x)))
      in case t of
           [] \<Rightarrow> None
         | c # cs \<Rightarrow>
             (if c = CHR ''-'' then (if cs = [] then None else map_option uminus (digits_val 0 cs))
              else if c = CHR ''+'' then (if cs = [] then None else digits_val 0 cs)
              else digits_val 0 (c # cs)))"

text \<open>\<^verbatim>\<open>stream.read(size)\<close>: a negative size reads everything.\<close>

definition read :: "string \<Rightarrow> int \<Rightarrow> string" where
  "read stream size' = (if size' < 0 then stream else take (nat size') stream)"

text \<open>\<^verbatim>\<open>get_request_body\<close>.\<close>

definition get_request_body :: "environ \<Rightarrow> string" where
  "get_request_body environ =
     (let request_body_size =
            (case CONTENT_LENGTH environ of
               None \<Rightarrow> 0
             | Some x \<Rightarrow> (case py_int x of None \<Rightarrow> 0 | Some n \<Rightarrow> n))
      in read (wsgi_input environ) request_body_size)"

text \<open>\<^verbatim>\<open>create_header\<close>.\<close>

definition create_header :: "dict \<Rightarrow> bool \<Rightarrow> error + (string \<times> json) list" where
  "create_header response_dic add_json_header =
     (let headers = (if add_json_header then [(''Content-Type'', JStr ''application/json'')]
                     else [])
      in ebind (item response_dic ''header'') (\<lambda>h.
           case h of JObj kvs \<Rightarrow> Inr (headers @ kvs) | _ \<Rightarrow> Inl AttributeError))"

text \<open>
  The status line of the handlers,
  \<^verbatim>\<open>'{0} {1}'.format(response_dic['code'], HTTP_CODE_DIC[response_dic['code']])\<close>.
  A code that is not a key of the table raises \<open>KeyError\<close>; a list or a dictionary
  cannot be a key at all.
\<close>

definition status_line :: "dict \<Rightarrow> error + string" where
  "status_line response_dic =
     ebind (item response_dic ''code'') (\<lambda>c.
       case c of
         JNum n \<Rightarrow>
           (case map_of HTTP_CODE_DIC n of
              Some reason \<Rightarrow> Inr (str_int n @ '' '' @ reason)
            | None \<Rightarrow> Inl KeyError)
       | JArr _ \<Rightarrow> Inl TypeError
       | JObj _ \<Rightarrow> Inl TypeError
       | _ \<Rightarrow> Inl KeyError)"

text \<open>The answer of a handler to a request method it does not serve.\<close>

definition method_not_allowed :: "error + response" where
  "method_not_allowed =
     (case map_of HTTP_CODE_DIC 405 of
        None \<Rightarrow> Inl KeyError
      | Some reason \<Rightarrow>
          Inr (''405 '' @ reason, [(''Content-Type'', JStr ''application/json'')],
               Some (JObj [(''status'', JNum 405), (''message'', JStr reason),
                           (''detail'', JStr ''Wrong request type. Expected POST.'')])))"

text \<open>
  The lines every handler of a JSON service ends with: the headers, the call of
  \<^verbatim>\<open>start_response\<close>, and the body \<^verbatim>\<open>response_dic['data']\<close>. In \<^verbatim>\<open>revokecert\<close> and
  \<^verbatim>\<open>trigger\<close> a response without \<^verbatim>\<open>data\<close> has an empty body.
\<close>

definition respond :: "dict \<Rightarrow> error + response" where
  "respond response_dic =
     ebind (create_header response_dic True) (\<lambda>headers.
     ebind (status_line response_dic) (\<lambda>st.
     ebind (item response_dic ''data'') (\<lambda>d. Inr (st, headers, Some d))))"

definition respond_optional :: "dict \<Rightarrow> error + response" where
  "respond_optional response_dic =
     ebind (create_header response_dic True) (\<lambda>headers.
     ebind (status_line response_dic) (\<lambda>st.
       Inr (st, headers, map_of response_dic ''data'')))"

text \<open>
  The callbacks of the URL table. The classes \<^verbatim>\<open>Order\<close>, \<^verbatim>\<open>Certificate\<close> and
  \<^verbatim>\<open>Trigger\<close>, the helper \<^verbatim>\<open>get_url\<close> and the configuration are not among the sources:
  the methods the handlers below call are fields of \<open>services\<close>, each taking the server
  URL its object was made with, the request body and the state. The callbacks that no
  property below is about (\<^verbatim>\<open>directory\<close>, \<^verbatim>\<open>authz\<close>, \<^verbatim>\<open>cert\<close>, \<^verbatim>\<open>chall\<close>,
  \<^verbatim>\<open>newnonce\<close>) are the field \<open>other\<close>.
\<close>

datatype callback =
    Directory | Acct | Authz | Cert | Chall | Newaccount | Newnonce | Neworders
  | Order | Revokecert | Trigger

record 's services =
  get_url :: "environ \<Rightarrow> string"
  url_prefix :: "string option"
  order_new :: "string \<Rightarrow> string \<Rightarrow> 's \<Rightarrow> error + dict \<times> 's"
  order_parse :: "string \<Rightarrow> string \<Rightarrow> 's \<Rightarrow> error + dict \<times> 's"
  certificate_revoke :: "string \<Rightarrow> string \<Rightarrow> 's \<Rightarrow> error + dict \<times> 's"
  trigger_parse :: "string \<Rightarrow> string \<Rightarrow> 's \<Rightarrow> error + dict \<times> 's"
  other :: "callback \<Rightarrow> environ \<Rightarrow> 's \<Rightarrow> error + response \<times> 's"

text \<open>
  \<^verbatim>\<open>acct\<close>: an \<open>Account\<close> object for the URL of the request parses the body. The
  request method is not looked at.
\<close>

definition acct ::
  "(string, 's, 'r) collaborators \<Rightarrow> 's services \<Rightarrow> environ \<Rightarrow> 's \<Rightarrow> error + response \<times> 's"
  where
  "acct E S environ s =
     (let account = E\<lparr>server_name := get_url S environ\<rparr>;
          request_body = get_request_body environ
      in ebind (parse account request_body s) (\<lambda>(response_dic, s').
         ebind (respond response_dic) (\<lambda>r. Inr (r, s'))))"

text \<open>\<^verbatim>\<open>newaccount\<close>.\<close>

definition newaccount ::
  "(string, 's, 'r) collaborators \<Rightarrow> 's services \<Rightarrow> 'r \<Rightarrow> environ \<Rightarrow> 's \<Rightarrow>
     error + response \<times> 's" where
  "newaccount E S rnd environ s =
     (if REQUEST_METHOD environ = ''POST'' then
        (let account = E\<lparr>server_name := get_url S environ\<rparr>;
             request_body = get_request_body environ
         in ebind (new account rnd request_body s) (\<lambda>(response_dic, s').
            ebind (respond response_dic) (\<lambda>r. Inr (r, s'))))
      else ebind method_not_allowed (\<lambda>r. Inr (r, s)))"

text \<open>\<^verbatim>\<open>neworders\<close> and \<^verbatim>\<open>order\<close>.\<close>

definition neworders :: "'s services \<Rightarrow> environ \<Rightarrow> 's \<Rightarrow> error + response \<times> 's" where
  "neworders S environ s =
     (if REQUEST_METHOD environ = ''POST'' then
        ebind (order_new S (get_url S environ) (get_request_body environ) s)
          (\<lambda>(response_dic, s'). ebind (respond response_dic) (\<lambda>r. Inr (r, s')))
      else ebind method_not_allowed (\<lambda>r. Inr (r, s)))"

definition order :: "'s services \<Rightarrow> environ \<Rightarrow> 's \<Rightarrow> error + response \<times> 's" where
  "order S environ s =
     (if REQUEST_METHOD environ = ''POST'' then
        ebind (order_parse S (get_url S environ) (get_request_body environ) s)
          (\<lambda>(response_dic, s'). ebind (respond response_dic) (\<lambda>r. Inr (r, s')))
      else ebind method_not_allowed (\<lambda>r. Inr (r, s)))"

text \<open>\<^verbatim>\<open>revokecert\<close> and \<^verbatim>\<open>trigger\<close>.\<close>

definition revokecert :: "'s services \<Rightarrow> environ \<Rightarrow> 's \<Rightarrow> error + response \<times> 's" where
  "revokecert S environ s =
     (if REQUEST_METHOD environ = ''POST'' then
        ebind (certificate_revoke S (get_url S environ) (get_request_body environ) s)
          (\<lambda>(response_dic, s'). ebind (respond_optional response_dic) (\<lambda>r. Inr (r, s')))
      else ebind method_not_allowed (\<lambda>r. Inr (r, s)))"

definition trigger :: "'s services \<Rightarrow> environ \<Rightarrow> 's \<Rightarrow> error + response \<times> 's" where
  "trigger S environ s =
     (if REQUEST_METHOD environ = ''POST'' then
        ebind (trigger_parse S (get_url S environ) (get_request_body environ) s)
          (\<lambda>(response_dic, s'). ebind (respond_optional response_dic) (\<lambda>r. Inr (r, s')))
      else ebind method_not_allowed (\<lambda>r. Inr (r, s)))"

text \<open>\<^verbatim>\<open>not_found\<close>.\<close>

definition not_found :: "error + response" where
  "not_found =
     (case map_of HTTP_CODE_DIC 404 of
        None \<Rightarrow> Inl KeyError
      | Some reason \<Rightarrow>
          Inr (''404 NOT FOUND'', [(''Content-Type'', JStr ''text/plain'')],
               Some (JObj [(''status'', JNum 404), (''message'', JStr reason),
                           (''detail'', JStr ''Not Found'')])))"

text \<open>
  The regular expressions of the URL table. Each begins with \<^verbatim>\<open>^\<close>, so \<^verbatim>\<open>re.search\<close>
  matches at the start of the path only; then come literal characters, of which one may
  be optional (\<^verbatim>\<open>?\<close>), and possibly \<^verbatim>\<open>$\<close>, which matches at the end of the path or
  before a newline that ends it.
\<close>

datatype re_atom = Lit char | Opt char

type_synonym regex = "re_atom list \<times> bool"

fun match_here :: "re_atom list \<Rightarrow> bool \<Rightarrow> string \<Rightarrow> bool" where
  "match_here [] dollar path = (if dollar then path = [] \<or> path = [CHR 0x0A] else True)"
| "match_here (Lit c # atoms) dollar path =
     (case path of [] \<Rightarrow> False | x # xs \<Rightarrow> x = c \<and> match_here atoms dollar xs)"
| "match_here (Opt c # atoms) dollar path =
     ((case path of [] \<Rightarrow> False | x # xs \<Rightarrow> x = c \<and> match_here atoms dollar xs)
      \<or> match_here atoms dollar path)"

definition re_search :: "regex \<Rightarrow> string \<Rightarrow> bool" where
  "re_search regex path = match_here (fst regex) (snd regex) path"

definition URLS :: "(regex \<times> callback) list" where
  "URLS =
     [(([], True), Directory),
      ((map Lit ''acme/acct'', False), Acct),
      ((map Lit ''acme/authz'', False), Authz),
      ((map Lit ''acme/cert'', False), Cert),
      ((map Lit ''acme/chall'', False), Chall),
      ((map Lit ''acme/key-change'', False), Acct),
      ((map Lit ''acme/newaccount'', True), Newaccount),
      ((map Lit ''acme/newnonce'', True), Newnonce),
      ((map Lit ''acme/neworders'', True), Neworders),
      ((map Lit ''acme/order'', False), Order),
      ((map Lit ''acme/revokecert'', False), Revokecert),
      ((map Lit ''director'' @ [Opt CHR ''y''], True), Directory),
      ((map Lit ''trigger'', False), Trigger)]"

text \<open>\<^verbatim>\<open>path.lstrip(prefix)\<close> removes the leading characters that occur in \<open>prefix\<close>.\<close>

definition lstrip :: "string \<Rightarrow> string \<Rightarrow> string" where
  "lstrip x chars = dropWhile (\<lambda>c. c \<in> set chars) x"

text \<open>The function a callback of the table stands for.\<close>

definition call ::
  "(string, 's, 'r) collaborators \<Rightarrow> 's services \<Rightarrow> 'r \<Rightarrow> callback \<Rightarrow> environ \<Rightarrow> 's \<Rightarrow>
     error + response \<times> 's" where
  "call E S rnd callback' environ s =
     (case callback' of
        Acct \<Rightarrow> acct E S environ s
      | Newaccount \<Rightarrow> newaccount E S rnd environ s
      | Neworders \<Rightarrow> neworders S environ s
      | Order \<Rightarrow> order S environ s
      | Revokecert \<Rightarrow> revokecert S environ s
      | Trigger \<Rightarrow> trigger S environ s
      | _ \<Rightarrow> other S callback' environ s)"

text \<open>
  \<^verbatim>\<open>application\<close>: the first regular expression of the table that matches the path
  decides the callback. The groups of the match, stored in the environment, are read by
  no handler.
\<close>

definition application ::
  "(string, 's, 'r) collaborators \<Rightarrow> 's services \<Rightarrow> 'r \<Rightarrow> environ \<Rightarrow> 's \<Rightarrow>
     error + response \<times> 's" where
  "application E S rnd environ s =
     (let prefix = (case url_prefix S of None \<Rightarrow> ''/'' | Some p \<Rightarrow> p @ ''/'');
          path = lstrip (case PATH_INFO environ of None \<Rightarrow> [] | Some p \<Rightarrow> p) prefix
      in case find (\<lambda>(regex, callback'). re_search regex path) URLS of
           Some (regex, callback') \<Rightarrow> call E S rnd callback' environ s
         | None \<Rightarrow> ebind not_found (\<lambda>r. Inr (r, s)))"

section \<open>Concrete requests\<close>

text \<open>The data of the examples on which the theorems below are run.\<close>

definition rsa_key :: json where
  "rsa_key = JObj [(''kty'', JStr ''RSA''), (''n'', JStr ''0vx7agoebG''), (''e'', JStr ''AQAB'')]"

definition ec_key :: json where
  "ec_key = JObj [(''kty'', JStr ''EC''), (''crv'', JStr ''P-256''),
                  (''x'', JStr ''f83OJ3D2''), (''y'', JStr ''x_FEzRu9'')]"

definition mail :: json where
  "mail = JArr [JStr ''mailto:a@example.org'']"

definition alice :: account where
  "alice = \<lparr>name = ''0a1b2c3d4e5f60718293a4b5'', alg = JStr ''RS256'', jwk = rsa_key,
            contact = mail, status = Valid\<rparr>"

definition request :: "dict \<Rightarrow> dict \<Rightarrow> envelope" where
  "request p q = \<lparr>protected = p, payload = q, rejected = None\<rparr>"

definition acme :: "(envelope, account list, 8 word list) collaborators" where
  "acme = reference ''https://acme.example'' ''Kq3v9a''"

definition octets :: "8 word list" where
  "octets = [1, 35, 69, 103, 137, 171, 205, 239, 16, 50, 84, 118]"

definition carol :: account where
  "carol = \<lparr>name = ''99887766554433221100aabb'', alg = JStr ''ES256'', jwk = ec_key,
            contact = mail, status = Valid\<rparr>"

text \<open>
  The same collaborators behind HTTP. The deserialisation of a request body into its
  envelope is not modelled; \<open>sample_jws\<close> is the table of the bodies that the examples
  send. The other services answer 200 with an empty body.
\<close>

definition sample_jws :: "string \<Rightarrow> envelope" where
  "sample_jws body =
     (if body = ''jws(deactivate)'' then
        request [(''alg'', JStr ''RS256''),
                 (''kid'', JStr ''https://acme.example/acme/acct/0a1b2c3d4e5f60718293a4b5'')]
                [(''status'', JStr ''deactivated'')]
      else if body = ''jws(register)'' then
        request [(''alg'', JStr ''RS256''), (''jwk'', rsa_key)]
                [(''termsofserviceagreed'', JBool True), (''contact'', mail)]
      else \<lparr>protected = [], payload = [], rejected = Some (400, Some urn_malformed, None)\<rparr>)"

definition http_acme :: "(string, account list, 8 word list) collaborators" where
  "http_acme =
     \<lparr>server_name = ''https://acme.example'',
      message_check = (\<lambda>body. check ''https://acme.example'' (sample_jws body)),
      message_prepare_response = prepare_response ''https://acme.example'' ''Kq3v9a'',
      helper_generate_random_string = generate_random_string,
      helper_validate_email = validate_email,
      dbstore_account_add = account_add,
      dbstore_account_lookup = account_lookup,
      dbstore_account_delete = account_delete\<rparr>"

definition sample_services :: "account list services" where
  "sample_services =
     \<lparr>get_url = (\<lambda>environ. ''https://acme.example''),
      url_prefix = None,
      order_new = (\<lambda>srv body s. Inr ([(''code'', JNum 200), (''header'', JObj [])], s)),
      order_parse = (\<lambda>srv body s. Inr ([(''code'', JNum 200), (''header'', JObj [])], s)),
      certificate_revoke = (\<lambda>srv body s. Inr ([(''code'', JNum 200), (''header'', JObj [])], s)),
      trigger_parse = (\<lambda>srv body s. Inr ([(''code'', JNum 200), (''header'', JObj [])], s)),
      other = (\<lambda>callback' environ s. Inr ((''200 OK'', [], None), s))\<rparr>"

text \<open>Two requests: a GET on an account URL, and the POST of a registration.\<close>

definition get_deactivate :: environ where
  "get_deactivate =
     \<lparr>REQUEST_METHOD = ''GET'', PATH_INFO = Some ''/acme/acct/0a1b2c3d4e5f60718293a4b5'',
      CONTENT_LENGTH = Some ''15'', wsgi_input = ''jws(deactivate)''\<rparr>"

definition post_register :: environ where
  "post_register =
     \<lparr>REQUEST_METHOD = ''POST'', PATH_INFO = Some ''/acme/newaccount'',
      CONTENT_LENGTH = Some ''13'', wsgi_input = ''jws(register)''\<rparr>"

section \<open>Properties of the Account class\<close>

lemma ebind_Inr [simp]: "ebind (Inr x) f = f x"
  by (simp add: ebind_def)

lemma ebind_Inl [simp]: "ebind (Inl e) f = Inl e"
  by (simp add: ebind_def)

text \<open>
  C10. A verified newAccount request whose payload has the key \<^verbatim>\<open>onlyreturnexisting\<close>
  with a false value is answered with code 400, the error \<^verbatim>\<open>userActionRequired\<close> and
  the detail "onlyReturnExisting must be true". The registration path is not entered:
  the response dictionary handed to \<^verbatim>\<open>prepare_response\<close> is empty and the account table
  is the one the request found.
\<close>

theorem new_onlyreturnexisting_false:
  assumes "message_check E content (Some True) s = (200, m, d, prot, pay, a)"
    and "map_of pay ''onlyreturnexisting'' = Some v"
    and "\<not> truthy v"
  shows "new E rnd content s =
           Inr (message_prepare_response E []
                  [(''code'', JNum 400),
                   (''message'', JStr ''urn:ietf:params:acme:error:userActionRequired''),
                   (''detail'', JStr ''onlyReturnExisting must be true'')], s)"
  using assms
  by (simp add: new_def new_steps_def new_response_def onlyreturnexisting_def has_key_def
      item_def status_dic_def opt_str_def urn_userActionRequired_def)

theorem new_onlyreturnexisting_false_witness:
  "message_check acme (request [(''alg'', JStr ''RS256''), (''jwk'', rsa_key)]
                         [(''onlyreturnexisting'', JBool False)]) (Some True) [alice]
     = (200, None, None, [(''alg'', JStr ''RS256''), (''jwk'', rsa_key)],
        [(''onlyreturnexisting'', JBool False)], None)
   \<and> \<not> truthy (JBool False)
   \<and> new acme octets (request [(''alg'', JStr ''RS256''), (''jwk'', rsa_key)]
                        [(''onlyreturnexisting'', JBool False)]) [alice] =
       Inr (message_prepare_response acme []
              [(''code'', JNum 400),
               (''message'', JStr ''urn:ietf:params:acme:error:userActionRequired''),
               (''detail'', JStr ''onlyReturnExisting must be true'')], [alice])"
  using new_onlyreturnexisting_false
    [of acme "request [(''alg'', JStr ''RS256''), (''jwk'', rsa_key)]
                [(''onlyreturnexisting'', JBool False)]" "[alice]"
        None None "[(''alg'', JStr ''RS256''), (''jwk'', rsa_key)]"
        "[(''onlyreturnexisting'', JBool False)]" None "JBool False" octets]
  by (simp add: acme_def reference_def check_def request_def)

text \<open>
  C5. A verified newAccount request without the key \<^verbatim>\<open>onlyreturnexisting\<close> whose payload
  lacks \<^verbatim>\<open>termsofserviceagreed\<close>, or has it with a false value, is answered with code
  403, the error \<^verbatim>\<open>userActionRequired\<close> and the detail "Terms of service must be
  accepted". No account is created: \<^verbatim>\<open>account_add\<close> is not called, and the account
  table is the one the request found.
\<close>

theorem new_tos_not_agreed:
  assumes "message_check E content (Some True) s = (200, m, d, prot, pay, a)"
    and "map_of pay ''onlyreturnexisting'' = None"
    and "case map_of pay ''termsofserviceagreed'' of None \<Rightarrow> True | Some v \<Rightarrow> \<not> truthy v"
  shows "new E rnd content s =
           Inr (message_prepare_response E []
                  [(''code'', JNum 403),
                   (''message'', JStr ''urn:ietf:params:acme:error:userActionRequired''),
                   (''detail'', JStr ''Terms of service must be accepted'')], s)"
  using assms
  by (simp add: new_def new_steps_def new_response_def tos_check_def has_key_def
      status_dic_def opt_str_def urn_userActionRequired_def split: option.splits)

theorem new_tos_not_agreed_witness:
  "message_check acme (request [(''alg'', JStr ''RS256''), (''jwk'', rsa_key)]
                         [(''termsofserviceagreed'', JBool False), (''contact'', mail)])
       (Some True) []
     = (200, None, None, [(''alg'', JStr ''RS256''), (''jwk'', rsa_key)],
        [(''termsofserviceagreed'', JBool False), (''contact'', mail)], None)
   \<and> map_of [(''termsofserviceagreed'', JBool False), (''contact'', mail)]
        ''onlyreturnexisting'' = None
   \<and> new acme octets (request [(''alg'', JStr ''RS256''), (''jwk'', rsa_key)]
                        [(''termsofserviceagreed'', JBool False), (''contact'', mail)]) [] =
       Inr (message_prepare_response acme []
              [(''code'', JNum 403),
               (''message'', JStr ''urn:ietf:params:acme:error:userActionRequired''),
               (''detail'', JStr ''Terms of service must be accepted'')], [])"
  using new_tos_not_agreed
    [of acme "request [(''alg'', JStr ''RS256''), (''jwk'', rsa_key)]
                [(''termsofserviceagreed'', JBool False), (''contact'', mail)]" "[]"
        None None "[(''alg'', JStr ''RS256''), (''jwk'', rsa_key)]"
        "[(''termsofserviceagreed'', JBool False), (''contact'', mail)]" None octets]
  by (simp add: acme_def reference_def check_def request_def)

lemma str_items_strings: "str_items (map JStr cs) = Some cs"
  by (induction cs) simp_all

text \<open>
  The contact check of a verified newAccount request without \<^verbatim>\<open>onlyreturnexisting\<close>
  runs after the check of the terms of service and only when that one succeeded. When
  the terms are agreed, a payload without \<^verbatim>\<open>contact\<close>, or with a list of strings that
  \<^verbatim>\<open>validate_email\<close> refuses, is answered with code 400 and the error
  \<^verbatim>\<open>invalidContact\<close>, and no account is created. When the terms are not agreed, the
  answer is the 403 of the terms of service, whatever the contacts are.
\<close>

lemma new_contact_check:
  assumes "message_check E content (Some True) s = (200, m, d, prot, pay, a)"
    and "map_of pay ''onlyreturnexisting'' = None"
  shows "(map_of pay ''termsofserviceagreed'' = Some v \<and> truthy v
            \<and> map_of pay ''contact'' = None \<longrightarrow>
          new E rnd content s =
            Inr (message_prepare_response E []
                   [(''code'', JNum 400),
                    (''message'', JStr ''urn:ietf:params:acme:error:invalidContact''),
                    (''detail'', JStr ''no contacts specified'')], s))
       \<and> (map_of pay ''termsofserviceagreed'' = Some v \<and> truthy v
            \<and> map_of pay ''contact'' = Some (JArr (map JStr cs))
            \<and> \<not> helper_validate_email E (JArr (map JStr cs)) \<longrightarrow>
          new E rnd content s =
            Inr (message_prepare_response E []
                   [(''code'', JNum 400),
                    (''message'', JStr ''urn:ietf:params:acme:error:invalidContact''),
                    (''detail'', JStr (if join '', '' cs = ''tosfalse''
                                       then ''Terms of service must be accepted''
                                       else join '', '' cs))], s))
       \<and> ((case map_of pay ''termsofserviceagreed'' of None \<Rightarrow> True | Some w \<Rightarrow> \<not> truthy w) \<longrightarrow>
          new E rnd content s =
            Inr (message_prepare_response E []
                   [(''code'', JNum 403),
                    (''message'', JStr ''urn:ietf:params:acme:error:userActionRequired''),
                    (''detail'', JStr ''Terms of service must be accepted'')], s))"
proof (intro conjI impI)
  assume "map_of pay ''termsofserviceagreed'' = Some v \<and> truthy v \<and> map_of pay ''contact'' = None"
  with assms show "new E rnd content s =
      Inr (message_prepare_response E []
             [(''code'', JNum 400),
              (''message'', JStr ''urn:ietf:params:acme:error:invalidContact''),
              (''detail'', JStr ''no contacts specified'')], s)"
    by (simp add: new_def new_steps_def new_response_def tos_check_def contact_check_def
        has_key_def status_dic_def opt_str_def urn_invalidContact_def)
next
  assume "map_of pay ''termsofserviceagreed'' = Some v \<and> truthy v
            \<and> map_of pay ''contact'' = Some (JArr (map JStr cs))
            \<and> \<not> helper_validate_email E (JArr (map JStr cs))"
  with assms show "new E rnd content s =
      Inr (message_prepare_response E []
             [(''code'', JNum 400),
              (''message'', JStr ''urn:ietf:params:acme:error:invalidContact''),
              (''detail'', JStr (if join '', '' cs = ''tosfalse''
                                 then ''Terms of service must be accepted''
                                 else join '', '' cs))], s)"
    by (simp add: new_def new_steps_def new_response_def tos_check_def contact_check_def
        has_key_def status_dic_def opt_str_def urn_invalidContact_def str_items_strings)
next
  assume "case map_of pay ''termsofserviceagreed'' of None \<Rightarrow> True | Some w \<Rightarrow> \<not> truthy w"
  with assms show "new E rnd content s =
      Inr (message_prepare_response E []
             [(''code'', JNum 403),
              (''message'', JStr ''urn:ietf:params:acme:error:userActionRequired''),
              (''detail'', JStr ''Terms of service must be accepted'')], s)"
    by (simp add: new_def new_steps_def new_response_def tos_check_def has_key_def
        status_dic_def opt_str_def urn_userActionRequired_def split: option.splits)
qed

text \<open>
  C6. The answer to a contact list that fails validation is to be code 400 with the error
  \<^verbatim>\<open>invalidContact\<close>. \<^verbatim>\<open>Account.contact_check\<close> sets that code and that error, and then
  builds the detail with \<^verbatim>\<open>', '.join\<close> (line 70). For a refused list with an element
  that is not a string the join raises \<open>TypeError\<close>: \<^verbatim>\<open>Account.new\<close> ends with the
  exception and makes no response.
\<close>

theorem new_contact_join_raises:
  assumes "message_check E content (Some True) s = (200, m, d, prot, pay, a)"
    and "map_of pay ''onlyreturnexisting'' = None"
    and "map_of pay ''termsofserviceagreed'' = Some v" and "truthy v"
    and "map_of pay ''contact'' = Some (JArr xs)"
    and "\<not> list_all (\<lambda>x. case x of JStr u \<Rightarrow> True | _ \<Rightarrow> False) xs"
    and "\<not> helper_validate_email E (JArr xs)"
  shows "new E rnd content s = Inl TypeError"
proof -
  have "str_items ys = None" if "\<not> list_all (\<lambda>x. case x of JStr u \<Rightarrow> True | _ \<Rightarrow> False) ys" for ys
    using that by (induction ys rule: str_items.induct) simp_all
  then have "py_join '', '' (JArr xs) = Inl TypeError"
    using assms(6) by simp
  then show ?thesis
    using assms(1-5,7)
    by (simp add: new_def new_steps_def tos_check_def contact_check_def has_key_def)
qed

theorem new_contact_join_raises_witness:
  "message_check acme (request [(''alg'', JStr ''RS256''), (''jwk'', rsa_key)]
                         [(''termsofserviceagreed'', JBool True),
                          (''contact'', JArr [JStr ''mailto:a@example.org'', JNum 7])])
       (Some True) [alice]
     = (200, None, None, [(''alg'', JStr ''RS256''), (''jwk'', rsa_key)],
        [(''termsofserviceagreed'', JBool True),
         (''contact'', JArr [JStr ''mailto:a@example.org'', JNum 7])], None)
   \<and> truthy (JBool True)
   \<and> \<not> helper_validate_email acme (JArr [JStr ''mailto:a@example.org'', JNum 7])
   \<and> new acme octets (request [(''alg'', JStr ''RS256''), (''jwk'', rsa_key)]
                        [(''termsofserviceagreed'', JBool True),
                         (''contact'', JArr [JStr ''mailto:a@example.org'', JNum 7])]) [alice]
       = Inl TypeError"
  using new_contact_join_raises
    [where E = acme and s = "[alice]" and rnd = octets and v = "JBool True"
       and xs = "[JStr ''mailto:a@example.org'', JNum 7]"
       and content = "request [(''alg'', JStr ''RS256''), (''jwk'', rsa_key)]
                        [(''termsofserviceagreed'', JBool True),
                         (''contact'', JArr [JStr ''mailto:a@example.org'', JNum 7])]"
       and m = None and d = None and a = None
       and prot = "[(''alg'', JStr ''RS256''), (''jwk'', rsa_key)]"
       and pay = "[(''termsofserviceagreed'', JBool True),
                   (''contact'', JArr [JStr ''mailto:a@example.org'', JNum 7])]"]
  by (simp add: acme_def reference_def check_def request_def validate_email_def
      mailto_shape_def)






text \<open>
  C2, as stated, fails: the lookup is not by thumbprint, and a missing account is not the
  only other outcome. The account of \<open>carol\<close> is registered under an elliptic-curve key.
  Her request with \<^verbatim>\<open>onlyreturnexisting\<close> true, carrying that very key, is answered
  neither with her name nor with \<^verbatim>\<open>accountDoesNotExist\<close>, but with \<^verbatim>\<open>malformed\<close>: the
  key has no member \<^verbatim>\<open>n\<close>.
\<close>

theorem new_onlyreturnexisting_ec_key:
  "jwk carol = ec_key
   \<and> new acme octets (request [(''alg'', JStr ''ES256''), (''jwk'', ec_key)]
                        [(''onlyreturnexisting'', JBool True)]) [carol]
     = Inr (message_prepare_response acme []
              [(''code'', JNum 400),
               (''message'', JStr ''urn:ietf:params:acme:error:malformed''),
               (''detail'', JStr ''n value missing'')], [carol])"
  by (simp add: acme_def reference_def check_def request_def new_def new_steps_def
      new_response_def onlyreturnexisting_def has_key_def item_def status_dic_def
      opt_str_def urn_malformed_def ec_key_def carol_def)

text \<open>
  C2, amended. For a verified newAccount request whose payload has \<^verbatim>\<open>onlyreturnexisting\<close>
  with a true value, the account is looked up in the column \<^verbatim>\<open>modulus\<close> by the member
  \<^verbatim>\<open>n\<close> of the key embedded in the protected header. If the header has no \<^verbatim>\<open>jwk\<close>, or
  the key no \<^verbatim>\<open>n\<close>, the response is code 400 with the error \<^verbatim>\<open>malformed\<close>; if the
  lookup finds no account, it is code 400 with \<^verbatim>\<open>accountDoesNotExist\<close>; if it finds
  one, it is code 200 with the \<^verbatim>\<open>Location\<close> of the name found. In each case no account
  is created.
\<close>

theorem new_onlyreturnexisting_true:
  assumes "message_check E content (Some True) s = (200, m, d, prot, pay, a)"
    and "map_of pay ''onlyreturnexisting'' = Some v"
    and "truthy v"
  shows "(map_of prot ''jwk'' = None \<longrightarrow>
          new E rnd content s =
            Inr (message_prepare_response E []
                   [(''code'', JNum 400),
                    (''message'', JStr ''urn:ietf:params:acme:error:malformed''),
                    (''detail'', JStr ''jwk structure missing'')], s))
       \<and> (map_of prot ''jwk'' = Some (JObj k) \<and> map_of k ''n'' = None \<longrightarrow>
          new E rnd content s =
            Inr (message_prepare_response E []
                   [(''code'', JNum 400),
                    (''message'', JStr ''urn:ietf:params:acme:error:malformed''),
                    (''detail'', JStr ''n value missing'')], s))
       \<and> (map_of prot ''jwk'' = Some (JObj k) \<and> map_of k ''n'' = Some n
            \<and> dbstore_account_lookup E ''modulus'' n s = None \<longrightarrow>
          new E rnd content s =
            Inr (message_prepare_response E []
                   [(''code'', JNum 400),
                    (''message'', JStr ''urn:ietf:params:acme:error:accountDoesNotExist''),
                    (''detail'', JNull)], s))
       \<and> (map_of prot ''jwk'' = Some (JObj k) \<and> map_of k ''n'' = Some n
            \<and> dbstore_account_lookup E ''modulus'' n s = Some acc \<longrightarrow>
          new E rnd content s =
            Inr (message_prepare_response E
                   [(''data'', JObj []),
                    (''header'', JObj [(''Location'',
                        JStr (server_name E @ ''/acme/acct/'' @ name acc))])]
                   [(''code'', JNum 200), (''message'', JStr (name acc)),
                    (''detail'', JNull)], s))"
  using assms
  by (simp add: new_def new_steps_def new_response_def onlyreturnexisting_def has_key_def
      item_def status_dic_def opt_str_def urn_malformed_def urn_accountDoesNotExist_def
      acct_path_def)

theorem new_onlyreturnexisting_true_witness:
  "message_check acme (request [(''alg'', JStr ''RS256''), (''jwk'', rsa_key)]
                         [(''onlyreturnexisting'', JBool True)]) (Some True) [carol, alice]
     = (200, None, None, [(''alg'', JStr ''RS256''), (''jwk'', rsa_key)],
        [(''onlyreturnexisting'', JBool True)], None)
   \<and> truthy (JBool True)
   \<and> dbstore_account_lookup acme ''modulus'' (JStr ''0vx7agoebG'') [carol, alice] = Some alice
   \<and> new acme octets (request [(''alg'', JStr ''RS256''), (''jwk'', rsa_key)]
                        [(''onlyreturnexisting'', JBool True)]) [carol, alice] =
       Inr (message_prepare_response acme
              [(''data'', JObj []),
               (''header'', JObj [(''Location'',
                  JStr ''https://acme.example/acme/acct/0a1b2c3d4e5f60718293a4b5'')])]
              [(''code'', JNum 200), (''message'', JStr ''0a1b2c3d4e5f60718293a4b5''),
               (''detail'', JNull)], [carol, alice])"
proof -
  have chk: "message_check acme (request [(''alg'', JStr ''RS256''), (''jwk'', rsa_key)]
                         [(''onlyreturnexisting'', JBool True)]) (Some True) [carol, alice]
     = (200, None, None, [(''alg'', JStr ''RS256''), (''jwk'', rsa_key)],
        [(''onlyreturnexisting'', JBool True)], None)"
    by (simp add: acme_def reference_def check_def request_def)
  have look: "dbstore_account_lookup acme ''modulus'' (JStr ''0vx7agoebG'') [carol, alice]
                = Some alice"
    by (simp add: acme_def reference_def account_lookup_def carol_def alice_def ec_key_def
        rsa_key_def item_def)
  have srv: "server_name acme = ''https://acme.example''"
    by (simp add: acme_def reference_def)
  from new_onlyreturnexisting_true
    [OF chk, where v = "JBool True" and rnd = octets and n = "JStr ''0vx7agoebG''"
       and acc = alice
       and k = "[(''kty'', JStr ''RSA''), (''n'', JStr ''0vx7agoebG''), (''e'', JStr ''AQAB'')]"]
  show ?thesis using chk look by (simp add: srv rsa_key_def) (simp add: alice_def)
qed

text \<open>
  C7, as stated, fails: the status is compared after \<^verbatim>\<open>lower()\<close>. The payload status
  \<^verbatim>\<open>DEACTIVATED\<close> is a value other than \<^verbatim>\<open>deactivated\<close>, and the request is answered
  with code 200 and changes the account.
\<close>

theorem parse_status_upper_case:
  "''DEACTIVATED'' \<noteq> ''deactivated''
   \<and> parse acme
       (request [(''alg'', JStr ''RS256''),
                 (''kid'', JStr ''https://acme.example/acme/acct/0a1b2c3d4e5f60718293a4b5'')]
                [(''status'', JStr ''DEACTIVATED'')]) [alice]
     = Inr (message_prepare_response acme
              [(''data'', JObj [(''status'', JStr ''DEACTIVATED'')])]
              [(''code'', JNum 200), (''message'', JNull), (''detail'', JNull)],
            [alice\<lparr>status := Deactivated\<rparr>])"
  by (simp add: acme_def reference_def check_def request_def parse_def delete_def
      account_delete_def has_key_def item_def status_dic_def opt_str_def lower_char_def
      alice_def acct_path_def)

text \<open>
  C7, amended. For a verified POST to the account URL, \<^verbatim>\<open>Account.parse\<close> reads the
  \<^verbatim>\<open>status\<close> of the payload. Without a \<^verbatim>\<open>status\<close>, or with a string that, in lower case,
  differs from \<^verbatim>\<open>deactivated\<close>, the response is code 400 with the error \<^verbatim>\<open>malformed\<close>
  and the account table is unchanged. With a string that, in lower case, equals
  \<^verbatim>\<open>deactivated\<close>, the only change made to the table is the one of \<^verbatim>\<open>account_delete\<close>
  for the account of the request.
\<close>

theorem parse_status:
  assumes "message_check E content None s = (200, m, d, prot, pay, a)"
  shows "(map_of pay ''status'' = None \<longrightarrow>
          parse E content s =
            Inr (message_prepare_response E []
                   [(''code'', JNum 400),
                    (''message'', JStr ''urn:ietf:params:acme:error:malformed''),
                    (''detail'', JStr ''dont know what to do with this request'')], s))
       \<and> (map_of pay ''status'' = Some (JStr x) \<and> map lower_char x \<noteq> ''deactivated'' \<longrightarrow>
          parse E content s =
            Inr (message_prepare_response E []
                   [(''code'', JNum 400),
                    (''message'', JStr ''urn:ietf:params:acme:error:malformed''),
                    (''detail'', JStr ''status attribute without sense'')], s))
       \<and> (map_of pay ''status'' = Some (JStr x) \<and> map lower_char x = ''deactivated''
            \<and> dbstore_account_delete E a s = (result, s') \<longrightarrow>
          parse E content s =
            Inr (if result
                 then message_prepare_response E [(''data'', JObj pay)]
                        [(''code'', JNum 200), (''message'', JNull), (''detail'', JNull)]
                 else message_prepare_response E []
                        [(''code'', JNum 400),
                         (''message'', JStr ''urn:ietf:params:acme:error:accountDoesNotExist''),
                         (''detail'', JStr ''deletion failed'')], s'))"
  using assms
  by (simp add: parse_def delete_def has_key_def item_def status_dic_def opt_str_def
      urn_malformed_def urn_accountDoesNotExist_def)

theorem parse_status_witness:
  "message_check acme
       (request [(''alg'', JStr ''RS256''),
                 (''kid'', JStr ''https://acme.example/acme/acct/0a1b2c3d4e5f60718293a4b5'')]
                [(''status'', JStr ''valid'')]) None [alice]
     = (200, None, None,
        [(''alg'', JStr ''RS256''),
         (''kid'', JStr ''https://acme.example/acme/acct/0a1b2c3d4e5f60718293a4b5'')],
        [(''status'', JStr ''valid'')], Some ''0a1b2c3d4e5f60718293a4b5'')
   \<and> map lower_char ''valid'' \<noteq> ''deactivated''
   \<and> parse acme
       (request [(''alg'', JStr ''RS256''),
                 (''kid'', JStr ''https://acme.example/acme/acct/0a1b2c3d4e5f60718293a4b5'')]
                [(''status'', JStr ''valid'')]) [alice]
     = Inr (message_prepare_response acme []
              [(''code'', JNum 400),
               (''message'', JStr ''urn:ietf:params:acme:error:malformed''),
               (''detail'', JStr ''status attribute without sense'')], [alice])"
proof -
  have chk: "message_check acme
       (request [(''alg'', JStr ''RS256''),
                 (''kid'', JStr ''https://acme.example/acme/acct/0a1b2c3d4e5f60718293a4b5'')]
                [(''status'', JStr ''valid'')]) None [alice]
     = (200, None, None,
        [(''alg'', JStr ''RS256''),
         (''kid'', JStr ''https://acme.example/acme/acct/0a1b2c3d4e5f60718293a4b5'')],
        [(''status'', JStr ''valid'')], Some ''0a1b2c3d4e5f60718293a4b5'')"
    by (simp add: acme_def reference_def check_def request_def alice_def acct_path_def)
  have low: "map lower_char ''valid'' \<noteq> ''deactivated''"
    by (simp add: lower_char_def)
  from parse_status [OF chk, where x = "''valid''"]
  show ?thesis using chk low by simp
qed

lemma find_deactivated:
  "find (\<lambda>b. name b = n) (map (\<lambda>b. if name b = n then b\<lparr>status := Deactivated\<rparr> else b) s)
     = map_option (\<lambda>b. b\<lparr>status := Deactivated\<rparr>) (find (\<lambda>b. name b = n) s)"
  by (induction s) simp_all

lemma find_list_ex: "find P s = Some x \<Longrightarrow> list_ex P s"
  by (induction s) (simp_all split: if_splits)

lemma names_deactivated:
  "map name (map (\<lambda>b. if name b = n then b\<lparr>status := Deactivated\<rparr> else b) s) = map name s"
  by (induction s) simp_all

text \<open>
  C3. Deactivation is a transition of the status, not a deletion. With the check of the
  envelope and the store as the specification describes them: a verified POST with the
  \<^verbatim>\<open>kid\<close> of an account that is not deactivated and the payload status \<^verbatim>\<open>deactivated\<close> is
  answered with code 200; afterwards the table holds the same names, the account of the
  request is still found and its status is deactivated; and every later request with
  the same \<^verbatim>\<open>kid\<close> is answered with code 401 and the error \<^verbatim>\<open>unauthorized\<close>.
\<close>

theorem parse_deactivates:
  assumes "message_check E = check (server_name E)"
    and "dbstore_account_delete E = account_delete"
    and "rejected env = None"
    and "map_of (protected env) ''kid'' = Some (JStr (server_name E @ ''/acme/acct/'' @ n))"
    and "map_of (payload env) ''status'' = Some (JStr ''deactivated'')"
    and "find (\<lambda>b. name b = n) s = Some acc"
    and "status acc \<noteq> Deactivated"
  shows "\<exists>s'. parse E env s =
                Inr (message_prepare_response E [(''data'', JObj (payload env))]
                       [(''code'', JNum 200), (''message'', JNull), (''detail'', JNull)], s')
           \<and> map name s' = map name s
           \<and> find (\<lambda>b. name b = n) s' = Some (acc\<lparr>status := Deactivated\<rparr>)
           \<and> (\<forall>env'. rejected env' = None
                  \<and> map_of (protected env') ''kid''
                      = Some (JStr (server_name E @ ''/acme/acct/'' @ n)) \<longrightarrow>
                parse E env' s' =
                  Inr (message_prepare_response E []
                         [(''code'', JNum 401),
                          (''message'', JStr ''urn:ietf:params:acme:error:unauthorized''),
                          (''detail'', JNull)], s'))"
proof -
  let ?s' = "map (\<lambda>b. if name b = n then b\<lparr>status := Deactivated\<rparr> else b) s"
  have name_acc: "name acc = n"
    using assms(6) by (induction s) (simp_all split: if_splits)
  have first: "check (server_name E) env None s
                 = (200, None, None, protected env, payload env, Some n)"
    using assms(3,4,6,7) by (simp add: check_def acct_path_def name_acc)
  have del: "account_delete (Some n) s = (True, ?s')"
    using find_list_ex [OF assms(6)] by (simp add: account_delete_def)
  have lower: "map lower_char ''deactivated'' = ''deactivated''"
    by (simp add: lower_char_def)
  have one: "parse E env s =
               Inr (message_prepare_response E [(''data'', JObj (payload env))]
                      [(''code'', JNum 200), (''message'', JNull), (''detail'', JNull)], ?s')"
    using assms(1,2,5) first del lower
    by (simp add: parse_def delete_def has_key_def item_def status_dic_def opt_str_def)
  have found: "find (\<lambda>b. name b = n) ?s' = Some (acc\<lparr>status := Deactivated\<rparr>)"
    using assms(6) by (simp add: find_deactivated)
  have later: "parse E env' ?s' =
                 Inr (message_prepare_response E []
                        [(''code'', JNum 401),
                         (''message'', JStr ''urn:ietf:params:acme:error:unauthorized''),
                         (''detail'', JNull)], ?s')"
    if "rejected env' = None"
      and "map_of (protected env') ''kid'' = Some (JStr (server_name E @ ''/acme/acct/'' @ n))"
    for env'
  proof -
    have "check (server_name E) env' None ?s'
            = (401, Some urn_unauthorized, None, [], [], None)"
      using that found by (simp add: check_def acct_path_def)
    then show ?thesis
      using assms(1)
      by (simp add: parse_def status_dic_def opt_str_def urn_unauthorized_def)
  qed
  show ?thesis
    using one found later names_deactivated [of n s] by blast
qed

theorem parse_deactivates_witness:
  "rejected (request [(''alg'', JStr ''RS256''),
               (''kid'', JStr ''https://acme.example/acme/acct/0a1b2c3d4e5f60718293a4b5'')]
              [(''status'', JStr ''deactivated'')]) = None
   \<and> find (\<lambda>b. name b = ''0a1b2c3d4e5f60718293a4b5'') [carol, alice] = Some alice
   \<and> status alice = Valid
   \<and> (\<exists>s'. parse acme
              (request [(''alg'', JStr ''RS256''),
                 (''kid'', JStr ''https://acme.example/acme/acct/0a1b2c3d4e5f60718293a4b5'')]
                [(''status'', JStr ''deactivated'')]) [carol, alice]
            = Inr (message_prepare_response acme
                     [(''data'', JObj [(''status'', JStr ''deactivated'')])]
                     [(''code'', JNum 200), (''message'', JNull), (''detail'', JNull)], s')
          \<and> map name s' = [name carol, name alice]
          \<and> find (\<lambda>b. name b = ''0a1b2c3d4e5f60718293a4b5'') s'
              = Some (alice\<lparr>status := Deactivated\<rparr>)
          \<and> parse acme
              (request [(''alg'', JStr ''RS256''),
                 (''kid'', JStr ''https://acme.example/acme/acct/0a1b2c3d4e5f60718293a4b5'')]
                []) s'
            = Inr (message_prepare_response acme []
                     [(''code'', JNum 401),
                      (''message'', JStr ''urn:ietf:params:acme:error:unauthorized''),
                      (''detail'', JNull)], s'))"
proof -
  let ?kid = "JStr ''https://acme.example/acme/acct/0a1b2c3d4e5f60718293a4b5''"
  let ?env = "request [(''alg'', JStr ''RS256''), (''kid'', ?kid)]
                [(''status'', JStr ''deactivated'')]"
  let ?env' = "request [(''alg'', JStr ''RS256''), (''kid'', ?kid)] []"
  have h1: "message_check acme = check (server_name acme)"
    and h2: "dbstore_account_delete acme = account_delete"
    by (simp_all add: acme_def reference_def)
  have h3: "rejected ?env = None" and h3': "rejected ?env' = None"
    by (simp_all add: request_def)
  have h4: "map_of (protected ?env) ''kid''
              = Some (JStr (server_name acme @ ''/acme/acct/'' @ ''0a1b2c3d4e5f60718293a4b5''))"
    and h4': "map_of (protected ?env') ''kid''
              = Some (JStr (server_name acme @ ''/acme/acct/'' @ ''0a1b2c3d4e5f60718293a4b5''))"
    by (simp_all add: request_def acme_def reference_def)
  have h5: "map_of (payload ?env) ''status'' = Some (JStr ''deactivated'')"
    by (simp add: request_def)
  have h6: "find (\<lambda>b. name b = ''0a1b2c3d4e5f60718293a4b5'') [carol, alice] = Some alice"
    by (simp add: carol_def alice_def)
  have h7: "status alice \<noteq> Deactivated" and h7': "status alice = Valid"
    by (simp_all add: alice_def)
  have pay: "payload ?env = [(''status'', JStr ''deactivated'')]"
    by (simp add: request_def)
  from parse_deactivates [OF h1 h2 h3 h4 h5 h6 h7]
  obtain s' where
    a: "parse acme ?env [carol, alice] =
          Inr (message_prepare_response acme [(''data'', JObj (payload ?env))]
                 [(''code'', JNum 200), (''message'', JNull), (''detail'', JNull)], s')"
    and b: "map name s' = map name [carol, alice]"
    and c: "find (\<lambda>b. name b = ''0a1b2c3d4e5f60718293a4b5'') s'
              = Some (alice\<lparr>status := Deactivated\<rparr>)"
    and e: "\<forall>env'. rejected env' = None
              \<and> map_of (protected env') ''kid''
                  = Some (JStr (server_name acme @ ''/acme/acct/'' @ ''0a1b2c3d4e5f60718293a4b5'')) \<longrightarrow>
              parse acme env' s' =
                Inr (message_prepare_response acme []
                       [(''code'', JNum 401),
                        (''message'', JStr ''urn:ietf:params:acme:error:unauthorized''),
                        (''detail'', JNull)], s')"
    by blast
  from e h3' h4' have e': "parse acme ?env' s' =
                Inr (message_prepare_response acme []
                       [(''code'', JNum 401),
                        (''message'', JStr ''urn:ietf:params:acme:error:unauthorized''),
                        (''detail'', JNull)], s')"
    by blast
  from a b c e' h3 h6 h7' show ?thesis
    unfolding pay by (intro conjI exI [of _ s']) simp_all
qed

lemma hex_digit_inj: "a < 16 \<Longrightarrow> b < 16 \<Longrightarrow> hex_digit a = hex_digit b \<Longrightarrow> a = b"
proof -
  assume a: "a < 16" and b: "b < 16" and e: "hex_digit a = hex_digit b"
  have d: "distinct ''0123456789abcdef''" by simp
  have l: "length ''0123456789abcdef'' = 16" by simp
  from e have "''0123456789abcdef'' ! a = ''0123456789abcdef'' ! b" by (simp add: hex_digit_def)
  with nth_eq_iff_index_eq [OF d, of a b] a b l show ?thesis by metis
qed

lemma hex_octet_inj: "hex_octet v = hex_octet w \<Longrightarrow> v = w"
proof -
  assume e: "hex_octet v = hex_octet w"
  have bv: "unat v < 256" using unsigned_less [of v] by simp
  have bw: "unat w < 256" using unsigned_less [of w] by simp
  from e have hi: "hex_digit (unat v div 16) = hex_digit (unat w div 16)"
    and lo: "hex_digit (unat v mod 16) = hex_digit (unat w mod 16)"
    by (simp_all add: hex_octet_def)
  have "unat v div 16 = unat w div 16"
    using bv bw by (intro hex_digit_inj [OF _ _ hi]) simp_all
  moreover have "unat v mod 16 = unat w mod 16"
    by (intro hex_digit_inj [OF _ _ lo]) simp_all
  ultimately have "unat v = unat w"
    by (metis div_mult_mod_eq)
  then show ?thesis by (simp add: word_unat_eq_iff)
qed

lemma length_hex_octet: "length (hex_octet w) = 2"
  by (simp add: hex_octet_def)

lemma concat_hex_inj:
  "length xs = length ys \<Longrightarrow> concat (map hex_octet xs) = concat (map hex_octet ys) \<Longrightarrow> xs = ys"
proof (induction xs ys rule: list_induct2)
  case Nil
  then show ?case by simp
next
  case (Cons x xs y ys)
  from Cons.prems
  have "hex_octet x @ concat (map hex_octet xs) = hex_octet y @ concat (map hex_octet ys)"
    by simp
  then have "hex_octet x = hex_octet y \<and> concat (map hex_octet xs) = concat (map hex_octet ys)"
    by (simp add: append_eq_append_conv length_hex_octet)
  with Cons.IH show ?case by (simp add: hex_octet_inj)
qed

lemma generate_inj: "inj_on (\<lambda>rnd. generate_random_string rnd 12) {rnd. length rnd = 12}"
  by (rule inj_onI) (simp add: generate_random_string_def concat_hex_inj)

lemma card_octets: "card {rnd :: 8 word list. length rnd = 12} = 2 ^ 96"
proof -
  have "card {rnd :: 8 word list. set rnd \<subseteq> UNIV \<and> length rnd = 12} = card (UNIV :: 8 word set) ^ 12"
    by (rule card_lists_length_eq) simp
  then show ?thesis by (simp add: card_word)
qed

lemma url_safe_hex_digit: "n < 16 \<Longrightarrow> url_safe (hex_digit n)"
proof -
  assume n: "n < 16"
  have "list_all url_safe ''0123456789abcdef''"
    by (simp add: url_safe_def)
  then have "\<forall>c \<in> set ''0123456789abcdef''. url_safe c"
    by (simp only: list_all_iff)
  moreover have "''0123456789abcdef'' ! n \<in> set ''0123456789abcdef''"
    using n by (intro nth_mem) simp
  ultimately show ?thesis by (simp only: hex_digit_def)
qed

lemma url_safe_generate: "list_all url_safe (generate_random_string rnd n)"
proof -
  have "list_all url_safe (concat (map hex_octet xs))" for xs
  proof (induction xs)
    case Nil
    then show ?case by simp
  next
    case (Cons w ws)
    have "unat w < 256" using unsigned_less [of w] by simp
    then have "unat w div 16 < 16" "unat w mod 16 < 16" by simp_all
    with Cons show ?case by (simp add: hex_octet_def url_safe_hex_digit)
  qed
  then show ?thesis by (simp add: generate_random_string_def)
qed

text \<open>
  C4. With the generator as the specification describes it, the name \<^verbatim>\<open>Account.add\<close>
  gives a new account is the string generated for the number 12; it consists of URL-safe
  characters, and the strings generated from 12 random octets are at least \<open>2 ^ 96\<close>.
\<close>

theorem add_name_space:
  "list_all url_safe (generate_random_string rnd 12)
   \<and> 2 ^ 96 \<le> card ((\<lambda>rnd. generate_random_string rnd 12) ` {rnd. length rnd = 12})
   \<and> (helper_generate_random_string E = generate_random_string
        \<and> map_of prot ''alg'' = Some al \<and> map_of prot ''jwk'' = Some k \<and> truthy c
        \<and> dbstore_account_add E
             [(''name'', JStr (generate_random_string rnd 12)), (''alg'', al), (''jwk'', k),
              (''contact'', c)] s = ((db_name, True), s') \<longrightarrow>
      add E rnd prot c s = ((201, Some (generate_random_string rnd 12), None), s'))"
proof (intro conjI impI)
  show "list_all url_safe (generate_random_string rnd 12)"
    by (rule url_safe_generate)
next
  have "card ((\<lambda>rnd. generate_random_string rnd 12) ` {rnd. length rnd = 12})
          = card {rnd :: 8 word list. length rnd = 12}"
    by (rule card_image [OF generate_inj])
  then show "2 ^ 96 \<le> card ((\<lambda>rnd. generate_random_string rnd 12) ` {rnd. length rnd = 12})"
    by (simp only: card_octets)
next
  assume "helper_generate_random_string E = generate_random_string
        \<and> map_of prot ''alg'' = Some al \<and> map_of prot ''jwk'' = Some k \<and> truthy c
        \<and> dbstore_account_add E
             [(''name'', JStr (generate_random_string rnd 12)), (''alg'', al), (''jwk'', k),
              (''contact'', c)] s = ((db_name, True), s')"
  then show "add E rnd prot c s = ((201, Some (generate_random_string rnd 12), None), s')"
    by (simp add: add_def)
qed

theorem add_name_space_witness:
  "helper_generate_random_string acme = generate_random_string
   \<and> truthy mail
   \<and> dbstore_account_add acme
        [(''name'', JStr (generate_random_string octets 12)), (''alg'', JStr ''RS256''),
         (''jwk'', rsa_key), (''contact'', mail)] []
      = ((''0123456789abcdef10325476'', True),
         [\<lparr>name = ''0123456789abcdef10325476'', alg = JStr ''RS256'', jwk = rsa_key,
           contact = mail, status = Valid\<rparr>])
   \<and> generate_random_string octets 12 = ''0123456789abcdef10325476''
   \<and> list_all url_safe ''0123456789abcdef10325476''
   \<and> add acme octets [(''alg'', JStr ''RS256''), (''jwk'', rsa_key)] mail []
      = ((201, Some ''0123456789abcdef10325476'', None),
         [\<lparr>name = ''0123456789abcdef10325476'', alg = JStr ''RS256'', jwk = rsa_key,
           contact = mail, status = Valid\<rparr>])"
proof -
  have gen: "helper_generate_random_string acme = generate_random_string"
    by (simp add: acme_def reference_def)
  have name: "generate_random_string octets 12 = ''0123456789abcdef10325476''"
    by (simp add: generate_random_string_def octets_def hex_octet_def hex_digit_def)
  have val: "truthy mail"
    by (simp add: mail_def)
  have store: "dbstore_account_add acme
        [(''name'', JStr (generate_random_string octets 12)), (''alg'', JStr ''RS256''),
         (''jwk'', rsa_key), (''contact'', mail)] []
      = ((''0123456789abcdef10325476'', True),
         [\<lparr>name = ''0123456789abcdef10325476'', alg = JStr ''RS256'', jwk = rsa_key,
           contact = mail, status = Valid\<rparr>])"
    unfolding name by (simp add: acme_def reference_def account_add_def field_def Let_def)
  from add_name_space
    [where rnd = octets and E = acme and c = mail and al = "JStr ''RS256''" and k = rsa_key
       and prot = "[(''alg'', JStr ''RS256''), (''jwk'', rsa_key)]" and s = "[]"
       and db_name = "''0123456789abcdef10325476''"
       and s' = "[\<lparr>name = ''0123456789abcdef10325476'', alg = JStr ''RS256'', jwk = rsa_key,
                   contact = mail, status = Valid\<rparr>]"]
  show ?thesis using gen val store by (simp add: name)
qed

section \<open>Properties of the dispatcher\<close>

lemma match_here_literal:
  "match_here (map Lit lit) False path = (take (length lit) path = lit)"
  by (induction lit arbitrary: path) (auto split: list.splits)

lemma literal_prefix: "take (length lit) path = lit \<Longrightarrow> path = lit @ drop (length lit) path"
  by (metis append_take_drop_id)

lemma route_acct:
  "find (\<lambda>(regex, callback'). re_search regex (''acme/acct'' @ rest)) URLS
     = Some ((map Lit ''acme/acct'', False), Acct)"
  by (simp add: URLS_def re_search_def)

lemma route_key_change:
  "find (\<lambda>(regex, callback'). re_search regex (''acme/key-change'' @ rest)) URLS
     = Some ((map Lit ''acme/key-change'', False), Acct)"
  by (simp add: URLS_def re_search_def)

lemma method_not_allowed_value:
  "method_not_allowed =
     Inr (''405 Method Not Allowed'', [(''Content-Type'', JStr ''application/json'')],
          Some (JObj [(''status'', JNum 405), (''message'', JStr ''Method Not Allowed''),
                      (''detail'', JStr ''Wrong request type. Expected POST.'')]))"
  by (simp add: method_not_allowed_def HTTP_CODE_DIC_def)

lemma body1: "get_request_body get_deactivate = ''jws(deactivate)''"
  by (simp add: get_request_body_def get_deactivate_def py_int_def is_space_def digit_val_def
      read_def)

lemma body2: "get_request_body post_register = ''jws(register)''"
  by (simp add: get_request_body_def post_register_def py_int_def is_space_def digit_val_def
      read_def)

text \<open>
  C9. A request whose path, after the prefix is stripped, matches \<^verbatim>\<open>^acme/acct\<close> or
  \<^verbatim>\<open>^acme/key-change\<close> is answered by \<^verbatim>\<open>acct\<close>: \<^verbatim>\<open>Account.parse\<close> is run on the
  request body and its response is sent, whatever the request method is. The handlers
  \<^verbatim>\<open>newaccount\<close>, \<^verbatim>\<open>neworders\<close>, \<^verbatim>\<open>order\<close>, \<^verbatim>\<open>revokecert\<close> and \<^verbatim>\<open>trigger\<close> answer a
  method other than POST with 405 and leave the state as it is.
\<close>

theorem application_acct_any_method:
  assumes "path = lstrip (case PATH_INFO environ of None \<Rightarrow> [] | Some p \<Rightarrow> p)
                    (case url_prefix S of None \<Rightarrow> ''/'' | Some p \<Rightarrow> p @ ''/'')"
    and "re_search (map Lit ''acme/acct'', False) path
         \<or> re_search (map Lit ''acme/key-change'', False) path"
  shows "application E S rnd environ s =
           ebind (parse (E\<lparr>server_name := get_url S environ\<rparr>) (get_request_body environ) s)
             (\<lambda>(response_dic, s'). ebind (respond response_dic) (\<lambda>r. Inr (r, s')))
       \<and> (REQUEST_METHOD environ \<noteq> ''POST'' \<longrightarrow>
            newaccount E S rnd environ s =
              Inr ((''405 Method Not Allowed'', [(''Content-Type'', JStr ''application/json'')],
                    Some (JObj [(''status'', JNum 405), (''message'', JStr ''Method Not Allowed''),
                                (''detail'', JStr ''Wrong request type. Expected POST.'')])), s)
          \<and> neworders S environ s = newaccount E S rnd environ s
          \<and> order S environ s = newaccount E S rnd environ s
          \<and> revokecert S environ s = newaccount E S rnd environ s
          \<and> trigger S environ s = newaccount E S rnd environ s)"
proof (intro conjI impI)
  from assms(2) have "(\<exists>rest. path = ''acme/acct'' @ rest) \<or> (\<exists>rest. path = ''acme/key-change'' @ rest)"
    unfolding re_search_def fst_conv snd_conv match_here_literal
    by (metis literal_prefix)
  then have "find (\<lambda>(regex, callback'). re_search regex path) URLS
               = Some ((map Lit ''acme/acct'', False), Acct)
           \<or> find (\<lambda>(regex, callback'). re_search regex path) URLS
               = Some ((map Lit ''acme/key-change'', False), Acct)"
    using route_acct route_key_change by blast
  then have "application E S rnd environ s = acct E S environ s"
    unfolding application_def Let_def assms(1) [symmetric]
    by (auto simp add: call_def)
  then show "application E S rnd environ s =
           ebind (parse (E\<lparr>server_name := get_url S environ\<rparr>) (get_request_body environ) s)
             (\<lambda>(response_dic, s'). ebind (respond response_dic) (\<lambda>r. Inr (r, s')))"
    by (simp add: acct_def)
next
  assume "REQUEST_METHOD environ \<noteq> ''POST''"
  then show "newaccount E S rnd environ s =
              Inr ((''405 Method Not Allowed'', [(''Content-Type'', JStr ''application/json'')],
                    Some (JObj [(''status'', JNum 405), (''message'', JStr ''Method Not Allowed''),
                                (''detail'', JStr ''Wrong request type. Expected POST.'')])), s)"
    by (simp add: newaccount_def method_not_allowed_value)
next
  assume "REQUEST_METHOD environ \<noteq> ''POST''"
  then show "neworders S environ s = newaccount E S rnd environ s"
    by (simp add: newaccount_def neworders_def)
next
  assume "REQUEST_METHOD environ \<noteq> ''POST''"
  then show "order S environ s = newaccount E S rnd environ s"
    by (simp add: newaccount_def order_def)
next
  assume "REQUEST_METHOD environ \<noteq> ''POST''"
  then show "revokecert S environ s = newaccount E S rnd environ s"
    by (simp add: newaccount_def revokecert_def)
next
  assume "REQUEST_METHOD environ \<noteq> ''POST''"
  then show "trigger S environ s = newaccount E S rnd environ s"
    by (simp add: newaccount_def trigger_def)
qed

theorem application_acct_any_method_witness:
  "re_search (map Lit ''acme/acct'', False)
     (lstrip ''/acme/acct/0a1b2c3d4e5f60718293a4b5'' ''/'')
   \<and> REQUEST_METHOD get_deactivate = ''GET''
   \<and> application http_acme sample_services octets get_deactivate [alice]
      = Inr ((''200 Created'',
              [(''Content-Type'', JStr ''application/json''),
               (''Replay-Nonce'', JStr ''Kq3v9a''),
               (''Link'', JStr (''<https://acme.example/directory>; rel=''
                                @ [CHR 0x22] @ ''index'' @ [CHR 0x22]))],
              Some (JObj [(''status'', JStr ''deactivated'')])),
             [alice\<lparr>status := Deactivated\<rparr>])
   \<and> newaccount http_acme sample_services octets get_deactivate [alice]
      = Inr ((''405 Method Not Allowed'', [(''Content-Type'', JStr ''application/json'')],
              Some (JObj [(''status'', JNum 405), (''message'', JStr ''Method Not Allowed''),
                          (''detail'', JStr ''Wrong request type. Expected POST.'')])), [alice])"
proof -
  have path: "lstrip ''/acme/acct/0a1b2c3d4e5f60718293a4b5'' ''/''
                = lstrip (case PATH_INFO get_deactivate of None \<Rightarrow> [] | Some p \<Rightarrow> p)
                    (case url_prefix sample_services of None \<Rightarrow> ''/'' | Some p \<Rightarrow> p @ ''/'')"
    by (simp add: get_deactivate_def sample_services_def)
  have hit: "re_search (map Lit ''acme/acct'', False)
               (lstrip ''/acme/acct/0a1b2c3d4e5f60718293a4b5'' ''/'')"
    by (simp add: re_search_def lstrip_def)
  have meth: "REQUEST_METHOD get_deactivate = ''GET''"
    by (simp add: get_deactivate_def)
  have run: "parse (http_acme\<lparr>server_name := get_url sample_services get_deactivate\<rparr>)
               (get_request_body get_deactivate) [alice]
             = Inr ([(''data'', JObj [(''status'', JStr ''deactivated'')]),
                     (''code'', JNum 200),
                     (''header'', JObj [(''Replay-Nonce'', JStr ''Kq3v9a''),
                        (''Link'', JStr (''<https://acme.example/directory>; rel=''
                                         @ [CHR 0x22] @ ''index'' @ [CHR 0x22]))])],
                    [alice\<lparr>status := Deactivated\<rparr>])"
    unfolding body1
    by (simp add: http_acme_def sample_services_def sample_jws_def check_def request_def
        parse_def delete_def account_delete_def has_key_def item_def status_dic_def opt_str_def
        lower_char_def alice_def acct_path_def prepare_response_def)
  from application_acct_any_method [OF path, of http_acme octets "[alice]"] hit meth
  show ?thesis
    by (simp add: run respond_def create_header_def status_line_def item_def HTTP_CODE_DIC_def
        str_int_def digits.simps)
qed

text \<open>
  C8. The status line of a handler is the code followed by its entry in
  \<^verbatim>\<open>HTTP_CODE_DIC\<close>, and the table pairs 200 with "Created" and 201 with "OK". A
  registration that creates an account is answered with the status line "201 OK", and
  the registration of a key that is known with "200 Created": the pairing is the
  inverse of the one the claim states.
\<close>

theorem newaccount_status_line:
  "map_of HTTP_CODE_DIC 201 = Some ''OK''
   \<and> map_of HTTP_CODE_DIC 200 = Some ''Created''
   \<and> (case application http_acme sample_services octets post_register [] of
         Inl e \<Rightarrow> False
       | Inr ((st, headers, body), s') \<Rightarrow>
           st = ''201 OK'' \<and> map_of headers ''Location''
             = Some (JStr ''https://acme.example/acme/acct/0123456789abcdef10325476''))
   \<and> (case application http_acme sample_services octets post_register [alice] of
         Inl e \<Rightarrow> False
       | Inr ((st, headers, body), s') \<Rightarrow>
           st = ''200 Created'' \<and> map_of headers ''Location''
             = Some (JStr ''https://acme.example/acme/acct/0a1b2c3d4e5f60718293a4b5''))"
proof -
  have route: "find (\<lambda>(regex, callback'). re_search regex ''acme/newaccount'') URLS
                 = Some ((map Lit ''acme/newaccount'', True), Newaccount)"
    by (simp add: URLS_def re_search_def)
  have app: "application http_acme sample_services octets post_register s
               = newaccount http_acme sample_services octets post_register s" for s
    using route
    by (simp add: application_def sample_services_def post_register_def lstrip_def call_def)
  have name: "generate_random_string octets 12 = ''0123456789abcdef10325476''"
    by (simp add: generate_random_string_def octets_def hex_octet_def hex_digit_def)
  have chk: "check ''https://acme.example'' (sample_jws ''jws(register)'') (Some True) s
      = (200, None, None, [(''alg'', JStr ''RS256''), (''jwk'', rsa_key)],
         [(''termsofserviceagreed'', JBool True), (''contact'', mail)], None)" for s
    by (simp add: check_def sample_jws_def request_def)
  have new1: "newaccount http_acme sample_services octets post_register []
      = Inr ((''201 OK'',
              [(''Content-Type'', JStr ''application/json''),
               (''Location'', JStr ''https://acme.example/acme/acct/0123456789abcdef10325476''),
               (''Replay-Nonce'', JStr ''Kq3v9a''),
               (''Link'', JStr (''<https://acme.example/directory>; rel=''
                                @ [CHR 0x22] @ ''index'' @ [CHR 0x22]))],
              Some (JObj [(''status'', JStr ''valid''), (''contact'', mail),
                 (''orders'', JStr ''https://acme.example/acme/acct/0123456789abcdef10325476/orders'')])),
             [\<lparr>name = ''0123456789abcdef10325476'', alg = JStr ''RS256'', jwk = rsa_key,
               contact = mail, status = Valid\<rparr>])"
    unfolding newaccount_def body2
    by (simp add: post_register_def http_acme_def sample_services_def new_def chk
        new_steps_def new_response_def tos_check_def contact_check_def add_def name
        account_add_def field_def has_key_def item_def status_dic_def opt_str_def
        validate_email_def mailto_shape_def mail_def acct_path_def prepare_response_def
        respond_def create_header_def status_line_def HTTP_CODE_DIC_def str_int_def
        digits.simps Let_def)
  have new2: "newaccount http_acme sample_services octets post_register [alice]
      = Inr ((''200 Created'',
              [(''Content-Type'', JStr ''application/json''),
               (''Location'', JStr ''https://acme.example/acme/acct/0a1b2c3d4e5f60718293a4b5''),
               (''Replay-Nonce'', JStr ''Kq3v9a''),
               (''Link'', JStr (''<https://acme.example/directory>; rel=''
                                @ [CHR 0x22] @ ''index'' @ [CHR 0x22]))],
              Some (JObj [])), [alice])"
    unfolding newaccount_def body2
    by (simp add: post_register_def http_acme_def sample_services_def new_def chk
        new_steps_def new_response_def tos_check_def contact_check_def add_def name
        account_add_def field_def has_key_def item_def status_dic_def opt_str_def
        validate_email_def mailto_shape_def mail_def acct_path_def prepare_response_def
        respond_def create_header_def status_line_def HTTP_CODE_DIC_def str_int_def
        digits.simps Let_def alice_def)
  show ?thesis
    by (simp add: app new1 new2) (simp add: HTTP_CODE_DIC_def)
qed

end
